theory Spec2Isabelle
  imports Main
begin

section \<open>Key derivation (KeyDeriver): data model\<close>

text \<open>
  The development follows the class \<open>KeyDeriver\<close>. A JavaScript string is modelled as an
  Isabelle \<open>string\<close>: one \<open>char\<close> per UTF-16 code unit, for code units in the range
  0..255, so that \<open>length\<close> is the source's \<open>.length\<close>. A byte array (\<open>number[]\<close>) is a
  list of naturals.
\<close>

type_synonym bytes = "nat list"

text \<open>
  The source throws \<open>Error\<close> objects that differ only in their message. The model keeps the
  kind of each failure: the message of every \<open>throw\<close> is given next to the branch that
  models it.
\<close>

datatype error =
    InvalidCounterparty
  | InvalidProtocolID
  | InvalidKeyID
  | DerivationError
  | PolicyViolation

text \<open>
  The first component of a \<open>WalletProtocol\<close> is a JavaScript number. \<open>Integer i\<close> is a
  number with the integral value \<open>i\<close>; \<open>NonInteger\<close> stands for every other number
  (a fraction, \<open>NaN\<close>, an infinity), on which \<open>Number.isInteger\<close> is false.
\<close>

datatype number = Integer int | NonInteger

type_synonym WalletProtocol = "number \<times> string"

subsection \<open>String and number operations of the language\<close>

definition Number_isInteger :: "number \<Rightarrow> bool" where
  "Number_isInteger x = (case x of Integer _ \<Rightarrow> True | NonInteger \<Rightarrow> False)"

definition number_less :: "number \<Rightarrow> int \<Rightarrow> bool" where
  "number_less x k = (case x of Integer i \<Rightarrow> i < k | NonInteger \<Rightarrow> False)"

definition number_greater :: "number \<Rightarrow> int \<Rightarrow> bool" where
  "number_greater x k = (case x of Integer i \<Rightarrow> k < i | NonInteger \<Rightarrow> False)"

definition digit_char :: "nat \<Rightarrow> char" where
  "digit_char d = ''0123456789'' ! d"

fun nat_toString :: "nat \<Rightarrow> string" where
  "nat_toString k = (if k < 10 then [digit_char k] else nat_toString (k div 10) @ [digit_char (k mod 10)])"

declare nat_toString.simps [simp del]

text \<open>The text a template literal inserts for a number.\<close>

definition number_toString :: "number \<Rightarrow> string" where
  "number_toString x =
     (case x of
        Integer i \<Rightarrow> (if i < 0 then CHR ''-'' # nat_toString (nat (- i)) else nat_toString (nat i))
      | NonInteger \<Rightarrow> ''NaN'')"

text \<open>
  \<open>String.prototype.toLowerCase\<close> on code units below 256: the letters A to Z and the
  Latin-1 capitals U+00C0 to U+00DE (without the multiplication sign U+00D7) move up
  by 32; every other code unit stays.
\<close>

definition lower_unit :: "char \<Rightarrow> char" where
  "lower_unit c =
     (let k = (of_char c :: nat)
      in if (65 \<le> k \<and> k \<le> 90) \<or> (192 \<le> k \<and> k \<le> 222 \<and> k \<noteq> 215) then char_of (k + 32) else c)"

definition toLowerCase :: "string \<Rightarrow> string" where
  "toLowerCase s = map lower_unit s"

text \<open>
  \<open>String.prototype.trim\<close> removes white space and line terminators at both ends; below
  256 these are the code units 9 to 13, 32 and 160.
\<close>

definition is_white_space :: "char \<Rightarrow> bool" where
  "is_white_space c =
     (let k = (of_char c :: nat) in (9 \<le> k \<and> k \<le> 13) \<or> k = 32 \<or> k = 160)"

definition trim :: "string \<Rightarrow> string" where
  "trim s = rev (dropWhile is_white_space (rev (dropWhile is_white_space s)))"

definition startsWith :: "string \<Rightarrow> string \<Rightarrow> bool" where
  "startsWith s p = (take (length p) s = p)"

definition endsWith :: "string \<Rightarrow> string \<Rightarrow> bool" where
  "endsWith s p = (length p \<le> length s \<and> drop (length s - length p) s = p)"

fun string_includes :: "string \<Rightarrow> string \<Rightarrow> bool" where
  "string_includes [] p = (p = [])"
| "string_includes (c # cs) p = (startsWith (c # cs) p \<or> string_includes cs p)"

text \<open>The regular expression \<open>/^[a-z0-9 ]+$/\<close>: a non-empty string of such code units.\<close>

definition is_name_unit :: "char \<Rightarrow> bool" where
  "is_name_unit c =
     (let k = (of_char c :: nat)
      in (97 \<le> k \<and> k \<le> 122) \<or> (48 \<le> k \<and> k \<le> 57) \<or> k = 32)"

definition name_regex_test :: "string \<Rightarrow> bool" where
  "name_regex_test s = (s \<noteq> [] \<and> list_all is_name_unit s)"

section \<open>The invoice number (namespace token)\<close>

text \<open>
  \<open>KeyDeriver.computeInvoiceNumber\<close>. The checks stand in the order of the source; the
  messages are, in that order: \<open>Protocol security level must be 0, 1, or 2\<close>,
  \<open>Key IDs must be 800 characters or less\<close>, \<open>Key IDs must be 1 character or more\<close>,
  \<open>Specific linkage revelation protocol names must be 430 characters or less\<close>,
  \<open>Protocol names must be 400 characters or less\<close>,
  \<open>Protocol names must be 5 characters or more\<close>,
  \<open>Protocol names cannot contain multiple consecutive spaces\<close>,
  \<open>Protocol names can only contain letters, numbers and spaces\<close> and
  \<open>No need to end your protocol name with " protocol"\<close>.
\<close>

definition computeInvoiceNumber :: "WalletProtocol \<Rightarrow> string \<Rightarrow> error + string" where
  "computeInvoiceNumber protocolID keyID =
     (let securityLevel = fst protocolID
      in if \<not> Number_isInteger securityLevel \<or> number_less securityLevel 0
            \<or> number_greater securityLevel 2
         then Inl InvalidProtocolID
         else
           let protocolName = trim (toLowerCase (snd protocolID))
           in if 800 < length keyID then Inl InvalidKeyID
              else if length keyID < 1 then Inl InvalidKeyID
              else
                let afterLength =
                  (if length protocolName < 5 then Inl InvalidProtocolID
                   else if string_includes protocolName ''  '' then Inl InvalidProtocolID
                   else if \<not> name_regex_test protocolName then Inl InvalidProtocolID
                   else if endsWith protocolName '' protocol'' then Inl InvalidProtocolID
                   else Inr (number_toString securityLevel @ ''-'' @ protocolName @ ''-'' @ keyID))
                in if 400 < length protocolName
                   then (if startsWith protocolName ''specific linkage revelation ''
                         then (if 430 < length protocolName then Inl InvalidProtocolID
                               else afterLength)
                         else Inl InvalidProtocolID)
                   else afterLength)"

subsection \<open>The validation rules in the specification's words\<close>

text \<open>
  The specification's conditions on the three inputs, to be compared with what
  \<open>computeInvoiceNumber\<close> checks: the security level is one of 0, 1, 2; the lower-cased,
  trimmed protocol name; the conditions under which that name is refused; the condition
  under which the key identifier is refused.
\<close>

definition level_ok :: "number \<Rightarrow> bool" where
  "level_ok sl = (sl = Integer 0 \<or> sl = Integer 1 \<or> sl = Integer 2)"

definition normalized_name :: "string \<Rightarrow> string" where
  "normalized_name nm = trim (toLowerCase nm)"

definition name_invalid :: "string \<Rightarrow> bool" where
  "name_invalid pn =
     (length pn < 5
      \<or> (400 < length pn \<and> \<not> startsWith pn ''specific linkage revelation '')
      \<or> (430 < length pn \<and> startsWith pn ''specific linkage revelation '')
      \<or> string_includes pn ''  ''
      \<or> list_ex (\<lambda>c. \<not> is_name_unit c) pn
      \<or> endsWith pn '' protocol'')"

definition keyID_invalid :: "string \<Rightarrow> bool" where
  "keyID_invalid kid = (length kid < 1 \<or> 800 < length kid)"

section \<open>The curve primitives\<close>

text \<open>
  \<open>KeyDeriver\<close> imports \<open>PrivateKey\<close>, \<open>PublicKey\<close>, \<open>SymmetricKey\<close>, \<open>Hash\<close> and \<open>Utils\<close>
  from \<open>../primitives/index\<close>, which is not among the sources. The arithmetic of the
  curve, the encodings and the hash are therefore parameters, collected in a record; a
  private key is its scalar, a public key its point.
\<close>

record 'pt primitives =
  curve_g :: 'pt
  curve_n :: nat
  point_add :: "'pt \<Rightarrow> 'pt \<Rightarrow> 'pt"
  point_mul :: "'pt \<Rightarrow> nat \<Rightarrow> 'pt"
  point_validate :: "'pt \<Rightarrow> bool"
  point_x :: "'pt \<Rightarrow> nat option"
  point_encode :: "'pt \<Rightarrow> bytes"
  PublicKey_fromString :: "string \<Rightarrow> 'pt option"
  PublicKey_toString :: "'pt \<Rightarrow> string"
  PrivateKey_toHex :: "nat \<Rightarrow> string"
  sha256hmac :: "bytes \<Rightarrow> bytes \<Rightarrow> bytes"

text \<open>
  \<open>point_x\<close> is \<open>None\<close> where the source reads \<open>null\<close> (the point at infinity);
  \<open>point_encode\<close> is \<open>encode(true)\<close>, the compressed encoding;
  \<open>PublicKey_fromString\<close> is \<open>None\<close> where the source's parser throws.
\<close>

text \<open>
  Modelled from the spec: \<open>Utils.toArray\<close> with the encoding \<open>'utf8'\<close>, of the primitives,
  which is not among the sources. The UTF-8 bytes of a string, on code units below 256.
\<close>

definition utf8_unit :: "char \<Rightarrow> bytes" where
  "utf8_unit c =
     (let k = (of_char c :: nat)
      in if k < 128 then [k] else [192 + k div 64, 128 + k mod 64])"

definition toArray_utf8 :: "string \<Rightarrow> bytes" where
  "toArray_utf8 s = concat (map utf8_unit s)"

text \<open>
  Modelled from the spec: the \<open>BigNumber\<close> built from a byte array, of the primitives,
  which is not among the sources. The number a byte array stands for, most significant
  byte first.
\<close>

definition BigNumber_of_bytes :: "bytes \<Rightarrow> nat" where
  "BigNumber_of_bytes bs = foldl (\<lambda>acc b. acc * 256 + b) 0 bs"

text \<open>
  Modelled from the spec: \<open>BigNumber.toArray\<close> of the primitives, which is not among the
  sources. The raw bytes of a number, most significant byte first, one byte for zero.
\<close>

fun BigNumber_toArray :: "nat \<Rightarrow> bytes" where
  "BigNumber_toArray k = (if k < 256 then [k] else BigNumber_toArray (k div 256) @ [k mod 256])"

declare BigNumber_toArray.simps [simp del]

text \<open>
  Modelled from the spec: \<open>PrivateKey.toPublicKey\<close> of the primitives, which is not among
  the sources. The identity key is the public point corresponding to the root key, and
  the key of scalar 1 has the point "scalar 1 times the base point".
\<close>

definition PrivateKey_toPublicKey :: "'pt primitives \<Rightarrow> nat \<Rightarrow> 'pt" where
  "PrivateKey_toPublicKey L k = point_mul L (curve_g L) k"

text \<open>
  Modelled from the spec: \<open>PrivateKey.deriveSharedSecret\<close> of the primitives, which is not
  among the sources. The shared secret is the point obtained by multiplying one party's
  private scalar by the other's public point.
\<close>

definition deriveSharedSecret :: "'pt primitives \<Rightarrow> nat \<Rightarrow> 'pt \<Rightarrow> 'pt" where
  "deriveSharedSecret L k P = point_mul L P k"

text \<open>
  Modelled from the spec: the offset of a child key, which the primitives compute inside
  \<open>deriveChild\<close> and which is not among the sources. A child key is its base key tweaked
  by an offset computed from the counterparty point and the namespace token, the same
  from either side of the relationship: the number of the HMAC-SHA256 with key the
  compressed shared point and message the UTF-8 bytes of the token.
\<close>

definition child_offset :: "'pt primitives \<Rightarrow> nat \<Rightarrow> 'pt \<Rightarrow> string \<Rightarrow> nat" where
  "child_offset L k P invoiceNumber =
     BigNumber_of_bytes
       (sha256hmac L (point_encode L (deriveSharedSecret L k P)) (toArray_utf8 invoiceNumber))"

text \<open>
  Modelled from the spec: \<open>PrivateKey.deriveChild\<close> of the primitives, which is not among
  the sources. The child scalar of a private key, tweaked by a public point and a token:
  the scalar plus the offset, within the curve order.
\<close>

definition PrivateKey_deriveChild :: "'pt primitives \<Rightarrow> nat \<Rightarrow> 'pt \<Rightarrow> string \<Rightarrow> nat" where
  "PrivateKey_deriveChild L k P invoiceNumber =
     (k + child_offset L k P invoiceNumber) mod curve_n L"

text \<open>
  Modelled from the spec: \<open>PublicKey.deriveChild\<close> of the primitives, which is not among
  the sources. The child point of a public key, tweaked by a private scalar and a token:
  the point plus the offset times the base point.
\<close>

definition PublicKey_deriveChild :: "'pt primitives \<Rightarrow> 'pt \<Rightarrow> nat \<Rightarrow> string \<Rightarrow> 'pt" where
  "PublicKey_deriveChild L P k invoiceNumber =
     point_add L P (point_mul L (curve_g L) (child_offset L k P invoiceNumber))"

subsection \<open>What the development asks of the primitives\<close>

text \<open>
  Validation is membership of the curve: the base point validates, and the validated
  points are closed under addition and scalar multiplication. Scalar multiplication
  distributes over the addition of scalars and composes by their product, and the base
  point has the order \<open>curve_n\<close>.
\<close>

definition curve_laws :: "'pt primitives \<Rightarrow> bool" where
  "curve_laws L =
     (point_validate L (curve_g L)
      \<and> (\<forall>P Q. point_validate L P \<longrightarrow> point_validate L Q \<longrightarrow> point_validate L (point_add L P Q))
      \<and> (\<forall>P k. point_validate L P \<longrightarrow> point_validate L (point_mul L P k))
      \<and> (\<forall>P j k. point_validate L P \<longrightarrow>
            point_mul L P (j + k) = point_add L (point_mul L P j) (point_mul L P k))
      \<and> (\<forall>P j k. point_validate L P \<longrightarrow> point_mul L (point_mul L P j) k = point_mul L P (j * k))
      \<and> (\<forall>k. point_mul L (curve_g L) (k mod curve_n L) = point_mul L (curve_g L) k))"

text \<open>Addition of validated points cancels, as in every group.\<close>

definition curve_cancel :: "'pt primitives \<Rightarrow> bool" where
  "curve_cancel L =
     (\<forall>P Q R. point_validate L P \<longrightarrow> point_validate L Q \<longrightarrow> point_validate L R \<longrightarrow>
        point_add L P R = point_add L Q R \<longrightarrow> P = Q)"

section \<open>The key deriver\<close>

record KeyDeriver =
  rootKey :: nat
  identityKey :: string

datatype rootKeyArg = FromPrivateKey nat | FromAnyone

text \<open>The constructor: the root key of \<open>'anyone'\<close> is the scalar 1.\<close>

definition KeyDeriver_constructor :: "'pt primitives \<Rightarrow> rootKeyArg \<Rightarrow> KeyDeriver" where
  "KeyDeriver_constructor L arg =
     (let rk = (case arg of FromAnyone \<Rightarrow> 1 | FromPrivateKey k \<Rightarrow> k)
      in \<lparr>rootKey = rk, identityKey = PublicKey_toString L (PrivateKey_toPublicKey L rk)\<rparr>)"

text \<open>
  The identity key of a deriver is the text of its public key: the parser reads it back as
  the public point of the root key, and it is neither of the two reserved words.
\<close>

definition identity_readable :: "'pt primitives \<Rightarrow> KeyDeriver \<Rightarrow> bool" where
  "identity_readable L D =
     (identityKey D \<noteq> ''self'' \<and> identityKey D \<noteq> ''anyone''
      \<and> PublicKey_fromString L (identityKey D) = Some (PrivateKey_toPublicKey L (rootKey D)))"

text \<open>
  A counterparty is \<open>undefined\<close> or \<open>null\<close> (\<open>Absent\<close>), a string (one of the words
  \<open>'self'\<close> and \<open>'anyone'\<close>, or the text of a public key), or a \<open>PublicKey\<close> object.
\<close>

datatype 'pt Counterparty = Absent | Text string | Key 'pt

text \<open>
  \<open>KeyDeriver.normalizeCounterparty\<close>. The messages are
  \<open>Counterparty must be "self", "anyone", or a valid public key string!\<close>,
  \<open>Invalid public key string\<close> (for a text that does not parse or does not validate) and
  \<open>normalizeCounterparty() produced an invalid key\<close>.
\<close>

definition normalizeCounterparty ::
  "'pt primitives \<Rightarrow> KeyDeriver \<Rightarrow> 'pt Counterparty \<Rightarrow> error + 'pt" where
  "normalizeCounterparty L this counterparty =
     (case counterparty of
        Absent \<Rightarrow> Inl InvalidCounterparty
      | _ \<Rightarrow>
        (let normalizedKey =
           (if counterparty = Text ''self''
            then Inr (PrivateKey_toPublicKey L (rootKey this))
            else if counterparty = Text ''anyone''
            then Inr (PrivateKey_toPublicKey L 1)
            else (case counterparty of
                    Text s \<Rightarrow>
                      (case PublicKey_fromString L s of
                         None \<Rightarrow> Inl InvalidCounterparty
                       | Some k \<Rightarrow>
                           if \<not> point_validate L k then Inl InvalidCounterparty else Inr k)
                  | Key k \<Rightarrow> Inr k
                  | Absent \<Rightarrow> Inl InvalidCounterparty))
         in case normalizedKey of
              Inl e \<Rightarrow> Inl e
            | Inr k \<Rightarrow> if \<not> point_validate L k then Inl InvalidCounterparty else Inr k))"

text \<open>
  \<open>KeyDeriver.derivePublicKey\<close>. A failure of the normalization is caught and thrown
  again as \<open>derivePublicKey() failed due to invalid counterparty\<close>; a derived key that
  does not validate is \<open>derivePublicKey() generated an invalid key\<close>.
\<close>

definition derivePublicKey ::
  "'pt primitives \<Rightarrow> KeyDeriver \<Rightarrow> WalletProtocol \<Rightarrow> string \<Rightarrow> 'pt Counterparty \<Rightarrow> bool
     \<Rightarrow> error + 'pt" where
  "derivePublicKey L this protocolID keyID counterparty forSelf =
     (case normalizeCounterparty L this counterparty of
        Inl e \<Rightarrow> Inl InvalidCounterparty
      | Inr cp \<Rightarrow>
        (case computeInvoiceNumber protocolID keyID of
           Inl e \<Rightarrow> Inl e
         | Inr invoiceNumber \<Rightarrow>
           (let derivedKey =
              (if forSelf
               then PrivateKey_toPublicKey L (PrivateKey_deriveChild L (rootKey this) cp invoiceNumber)
               else PublicKey_deriveChild L cp (rootKey this) invoiceNumber)
            in if \<not> point_validate L derivedKey then Inl DerivationError else Inr derivedKey)))"

text \<open>\<open>KeyDeriver.derivePrivateKey\<close>.\<close>

definition derivePrivateKey ::
  "'pt primitives \<Rightarrow> KeyDeriver \<Rightarrow> WalletProtocol \<Rightarrow> string \<Rightarrow> 'pt Counterparty
     \<Rightarrow> error + nat" where
  "derivePrivateKey L this protocolID keyID counterparty =
     (case normalizeCounterparty L this counterparty of
        Inl e \<Rightarrow> Inl e
      | Inr cp \<Rightarrow>
        (case computeInvoiceNumber protocolID keyID of
           Inl e \<Rightarrow> Inl e
         | Inr invoiceNumber \<Rightarrow> Inr (PrivateKey_deriveChild L (rootKey this) cp invoiceNumber)))"

text \<open>
  \<open>KeyDeriver.deriveSymmetricKey\<close>. The symmetric key is the byte array it is built
  from; a shared point without an x-coordinate is
  \<open>Failed to derive shared secret: x-coordinate is null\<close>.
\<close>

definition deriveSymmetricKey ::
  "'pt primitives \<Rightarrow> KeyDeriver \<Rightarrow> WalletProtocol \<Rightarrow> string \<Rightarrow> 'pt Counterparty
     \<Rightarrow> error + bytes" where
  "deriveSymmetricKey L this protocolID keyID counterparty =
     (let counterparty1 =
        (if counterparty = Text ''anyone'' then Key (PrivateKey_toPublicKey L 1) else counterparty)
      in case normalizeCounterparty L this counterparty1 of
           Inl e \<Rightarrow> Inl e
         | Inr cp \<Rightarrow>
           (case derivePublicKey L this protocolID keyID (Key cp) False of
              Inl e \<Rightarrow> Inl e
            | Inr derivedPublicKey \<Rightarrow>
              (case derivePrivateKey L this protocolID keyID (Key cp) of
                 Inl e \<Rightarrow> Inl e
               | Inr derivedPrivateKey \<Rightarrow>
                 (let sharedSecret = deriveSharedSecret L derivedPrivateKey derivedPublicKey
                  in case point_x L sharedSecret of
                       None \<Rightarrow> Inl DerivationError
                     | Some x \<Rightarrow> Inr (BigNumber_toArray x)))))"

text \<open>
  \<open>KeyDeriver.revealCounterpartySecret\<close>. Both refusals have the message
  \<open>Counterparty secrets cannot be revealed for counterparty=self.\<close>
\<close>

definition revealCounterpartySecret ::
  "'pt primitives \<Rightarrow> KeyDeriver \<Rightarrow> 'pt Counterparty \<Rightarrow> error + bytes" where
  "revealCounterpartySecret L this counterparty =
     (if counterparty = Text ''self'' then Inl PolicyViolation
      else
        (case normalizeCounterparty L this counterparty of
           Inl e \<Rightarrow> Inl e
         | Inr cp \<Rightarrow>
           (let self = PrivateKey_toPublicKey L (rootKey this);
                keyDerivedBySelf =
                  PrivateKey_toHex L (PrivateKey_deriveChild L (rootKey this) self ''test'');
                keyDerivedByCounterparty =
                  PrivateKey_toHex L (PrivateKey_deriveChild L (rootKey this) cp ''test'')
            in if keyDerivedBySelf = keyDerivedByCounterparty then Inl PolicyViolation
               else Inr (point_encode L (deriveSharedSecret L (rootKey this) cp)))))"

text \<open>\<open>KeyDeriver.revealSpecificSecret\<close>.\<close>

definition revealSpecificSecret ::
  "'pt primitives \<Rightarrow> KeyDeriver \<Rightarrow> 'pt Counterparty \<Rightarrow> WalletProtocol \<Rightarrow> string
     \<Rightarrow> error + bytes" where
  "revealSpecificSecret L this counterparty protocolID keyID =
     (case normalizeCounterparty L this counterparty of
        Inl e \<Rightarrow> Inl e
      | Inr cp \<Rightarrow>
        (let sharedSecret = deriveSharedSecret L (rootKey this) cp
         in case computeInvoiceNumber protocolID keyID of
              Inl e \<Rightarrow> Inl e
            | Inr invoiceNumber \<Rightarrow>
                Inr (sha256hmac L (point_encode L sharedSecret) (toArray_utf8 invoiceNumber))))"

section \<open>A small instance of the primitives\<close>

text \<open>
  The integers modulo 7 under addition, with base point 1: a group of prime order in
  which every operation evaluates. A point is written as a run of the letter P, a scalar
  as a run of the digit 1.
\<close>

definition toy :: "nat primitives" where
  "toy =
     \<lparr>curve_g = 1,
      curve_n = 7,
      point_add = (\<lambda>P Q. (P + Q) mod 7),
      point_mul = (\<lambda>P k. (P * k) mod 7),
      point_validate = (\<lambda>P. P < 7),
      point_x = (\<lambda>P. if P = 0 then None else Some P),
      point_encode = (\<lambda>P. [P]),
      PublicKey_fromString =
        (\<lambda>s. if s \<noteq> [] \<and> list_all (\<lambda>c. c = CHR ''P'') s then Some (length s - 1) else None),
      PublicKey_toString = (\<lambda>P. replicate (Suc P) (CHR ''P'')),
      PrivateKey_toHex = (\<lambda>k. replicate k (CHR ''1'')),
      sha256hmac = (\<lambda>key msg. [sum_list key + length msg])\<rparr>"

section \<open>Properties of the invoice number\<close>

lemma level_check:
  "(\<not> Number_isInteger sl \<or> number_less sl 0 \<or> number_greater sl 2) = (\<not> level_ok sl)"
  by (cases sl) (auto simp: Number_isInteger_def number_less_def number_greater_def level_ok_def)

lemma regex_list_ex: "list_all is_name_unit pn = (\<not> list_ex (\<lambda>c. \<not> is_name_unit c) pn)"
  by (induction pn) auto

text \<open>
  The checks of \<open>computeInvoiceNumber\<close> in their order: the security level, then the key
  identifier, then the protocol name.
\<close>

lemma computeInvoiceNumber_cases:
  "computeInvoiceNumber (sl, nm) kid =
     (if \<not> level_ok sl then Inl InvalidProtocolID
      else if keyID_invalid kid then Inl InvalidKeyID
      else if name_invalid (normalized_name nm) then Inl InvalidProtocolID
      else Inr (number_toString sl @ ''-'' @ normalized_name nm @ ''-'' @ kid))"
  unfolding computeInvoiceNumber_def Let_def fst_conv snd_conv level_check
  by (auto simp: keyID_invalid_def name_invalid_def normalized_name_def name_regex_test_def
      regex_list_ex)

lemma level_toString_cases:
  "level_ok sl \<Longrightarrow>
     (sl = Integer 0 \<and> number_toString sl = ''0'')
     \<or> (sl = Integer 1 \<and> number_toString sl = ''1'')
     \<or> (sl = Integer 2 \<and> number_toString sl = ''2'')"
  by (auto simp: level_ok_def number_toString_def nat_toString.simps digit_char_def)

lemma level_toString_inj:
  "level_ok sl \<Longrightarrow> level_ok sl' \<Longrightarrow> number_toString sl @ r = number_toString sl' @ r'
     \<Longrightarrow> sl = sl' \<and> r = r'"
  using level_toString_cases[of sl] level_toString_cases[of sl'] by auto

lemma name_unit_not_dash: "is_name_unit c \<Longrightarrow> c \<noteq> CHR ''-''"
  by (auto simp: is_name_unit_def)

lemma name_valid_no_dash: "\<not> name_invalid pn \<Longrightarrow> CHR ''-'' \<notin> set pn"
  using name_unit_not_dash by (auto simp: name_invalid_def list_ex_iff)

lemma split_at_dash:
  "CHR ''-'' \<notin> set a \<Longrightarrow> CHR ''-'' \<notin> set b \<Longrightarrow> a @ CHR ''-'' # x = b @ CHR ''-'' # y
     \<Longrightarrow> a = b \<and> x = y"
proof (induction a arbitrary: b)
  case Nil
  then show ?case by (cases b) auto
next
  case (Cons c a)
  then show ?case by (cases b) auto
qed

lemma linkage_name_430_valid:
  "\<not> name_invalid (normalized_name (''specific linkage revelation '' @ replicate 402 (CHR ''a'')))"
  by code_simp

lemma linkage_name_431_length:
  "length (normalized_name (''specific linkage revelation '' @ replicate 403 (CHR ''a''))) = 431"
  by code_simp

text \<open>
  C4, as the code has it. The builder fails exactly when the security level is not one of
  0, 1, 2, or the key identifier is shorter than 1 or longer than 800, or the lower-cased
  trimmed name is refused (shorter than 5, longer than 400 without the prefix
  "specific linkage revelation ", longer than 430 with it, two consecutive spaces, a
  character outside a-z, 0-9 and space, or the ending " protocol"). The checks run in the
  order level, key identifier, name, and the first that fails decides the error: the
  failure is InvalidKeyID exactly when the level is accepted and the key identifier is
  refused, and InvalidProtocolID exactly when the level is refused, or the key identifier
  is accepted and the name is refused. In particular a name of length 4 or 431 fails and
  a key identifier of length 0 or 801 fails.
\<close>

theorem validation_outcome:
  "((computeInvoiceNumber (sl, nm) kid = Inl InvalidProtocolID)
      = (\<not> level_ok sl \<or> (\<not> keyID_invalid kid \<and> name_invalid (normalized_name nm))))
   \<and> ((computeInvoiceNumber (sl, nm) kid = Inl InvalidKeyID)
      = (level_ok sl \<and> keyID_invalid kid))
   \<and> (isl (computeInvoiceNumber (sl, nm) kid)
      = (\<not> level_ok sl \<or> keyID_invalid kid \<or> name_invalid (normalized_name nm)))
   \<and> (length (normalized_name nm) = 4 \<longrightarrow> isl (computeInvoiceNumber (sl, nm) kid))
   \<and> (length (normalized_name nm) = 431 \<longrightarrow> isl (computeInvoiceNumber (sl, nm) kid))
   \<and> (length kid = 0 \<or> length kid = 801 \<longrightarrow> isl (computeInvoiceNumber (sl, nm) kid))"
proof (intro conjI impI)
  show "(computeInvoiceNumber (sl, nm) kid = Inl InvalidProtocolID)
      = (\<not> level_ok sl \<or> (\<not> keyID_invalid kid \<and> name_invalid (normalized_name nm)))"
    by (simp add: computeInvoiceNumber_cases)
  show "(computeInvoiceNumber (sl, nm) kid = Inl InvalidKeyID) = (level_ok sl \<and> keyID_invalid kid)"
    by (simp add: computeInvoiceNumber_cases)
  show all: "isl (computeInvoiceNumber (sl, nm) kid)
      = (\<not> level_ok sl \<or> keyID_invalid kid \<or> name_invalid (normalized_name nm))"
    by (simp add: computeInvoiceNumber_cases)
  show "isl (computeInvoiceNumber (sl, nm) kid)" if "length (normalized_name nm) = 4"
    using that by (simp add: all name_invalid_def)
  show "isl (computeInvoiceNumber (sl, nm) kid)" if "length (normalized_name nm) = 431"
    using that by (simp add: all name_invalid_def)
  show "isl (computeInvoiceNumber (sl, nm) kid)" if "length kid = 0 \<or> length kid = 801"
    using that by (auto simp add: all keyID_invalid_def)
qed

text \<open>
  C4 on inputs: a name of length 430 with the prefix is accepted and one of length 431 is
  refused, a name of length 4 is refused, key identifiers of length 0 and 801 are
  InvalidKeyID, the security level 3 is InvalidProtocolID.
\<close>

theorem validation_outcome_witness:
  "\<not> isl (computeInvoiceNumber
            (Integer 2, ''specific linkage revelation '' @ replicate 402 (CHR ''a'')) ''k'')
   \<and> isl (computeInvoiceNumber
            (Integer 2, ''specific linkage revelation '' @ replicate 403 (CHR ''a'')) ''k'')
   \<and> isl (computeInvoiceNumber (Integer 2, ''abcd'') ''k'')
   \<and> computeInvoiceNumber (Integer 2, ''testprotocol'') '''' = Inl InvalidKeyID
   \<and> computeInvoiceNumber (Integer 2, ''testprotocol'') (replicate 801 (CHR ''k'')) = Inl InvalidKeyID
   \<and> computeInvoiceNumber (Integer 3, ''testprotocol'') ''k'' = Inl InvalidProtocolID"
proof -
  have lv: "level_ok (Integer 2)" "\<not> level_ok (Integer 3)"
    by (simp_all add: level_ok_def)
  have kk: "\<not> keyID_invalid ''k''" "keyID_invalid ''''" "keyID_invalid (replicate 801 (CHR ''k''))"
    by (simp_all add: keyID_invalid_def)
  have n4: "length (normalized_name ''abcd'') = 4"
    by code_simp
  show ?thesis
    using validation_outcome
        [of "Integer 2" "''specific linkage revelation '' @ replicate 402 (CHR ''a'')" "''k''"]
      validation_outcome
        [of "Integer 2" "''specific linkage revelation '' @ replicate 403 (CHR ''a'')" "''k''"]
      validation_outcome [of "Integer 2" "''abcd''" "''k''"]
      validation_outcome [of "Integer 2" "''testprotocol''" "''''"]
      validation_outcome [of "Integer 2" "''testprotocol''" "replicate 801 (CHR ''k'')"]
      validation_outcome [of "Integer 3" "''testprotocol''" "''k''"]
      lv kk n4 linkage_name_430_valid linkage_name_431_length
    by blast
qed

text \<open>
  C4 as it is worded fails. With the security level 0, the name "abc" and the empty key
  identifier the name is shorter than 5, and the failure is InvalidKeyID, not
  InvalidProtocolID; with the security level 3 and the empty key identifier the key
  identifier is shorter than 1, and the failure is InvalidProtocolID, not InvalidKeyID.
\<close>

theorem validation_error_kind_counterexample:
  "\<not> ((computeInvoiceNumber (Integer 0, ''abc'') '''' = Inl InvalidProtocolID)
        = (\<not> level_ok (Integer 0) \<or> name_invalid (normalized_name ''abc'')))
   \<and> \<not> ((computeInvoiceNumber (Integer 3, ''testprotocol'') '''' = Inl InvalidKeyID)
        = keyID_invalid '''')"
  by code_simp

text \<open>
  C5: every security level, protocol name and key identifier that pass the validation
  (the level is 0, 1 or 2, the key identifier has 1 to 800 characters, the lower-cased
  trimmed name is not refused) are given a token, and the token is the security level, a
  hyphen, the lower-cased trimmed protocol name, a hyphen and the key identifier, where
  the security level is written "0", "1" or "2". Conversely every token the builder
  returns comes from such a triple and has that form. The level 0, the name
  "testprotocol" and the key identifier "k1" give "0-testprotocol-k1". The builder is a
  function of its three inputs, so equal inputs give equal tokens.
\<close>

theorem token_format:
  "(level_ok sl \<and> \<not> keyID_invalid kid \<and> \<not> name_invalid (normalized_name nm) \<longrightarrow>
       computeInvoiceNumber (sl, nm) kid
         = Inr (number_toString sl @ ''-'' @ trim (toLowerCase nm) @ ''-'' @ kid)
       \<and> (number_toString sl = ''0'' \<or> number_toString sl = ''1'' \<or> number_toString sl = ''2''))
   \<and> (\<forall>sl' nm' kid' t. computeInvoiceNumber (sl', nm') kid' = Inr t \<longrightarrow>
       level_ok sl' \<and> \<not> keyID_invalid kid' \<and> \<not> name_invalid (normalized_name nm')
       \<and> t = number_toString sl' @ ''-'' @ trim (toLowerCase nm') @ ''-'' @ kid'
       \<and> (number_toString sl' = ''0'' \<or> number_toString sl' = ''1'' \<or> number_toString sl' = ''2''))
   \<and> computeInvoiceNumber (Integer 0, ''testprotocol'') ''k1'' = Inr ''0-testprotocol-k1''"
proof (intro conjI allI impI)
  assume ok: "level_ok sl \<and> \<not> keyID_invalid kid \<and> \<not> name_invalid (normalized_name nm)"
  then show "computeInvoiceNumber (sl, nm) kid
      = Inr (number_toString sl @ ''-'' @ trim (toLowerCase nm) @ ''-'' @ kid)"
    by (simp add: computeInvoiceNumber_cases normalized_name_def)
  from ok show "number_toString sl = ''0'' \<or> number_toString sl = ''1'' \<or> number_toString sl = ''2''"
    using level_toString_cases[of sl] by auto
next
  fix sl' nm' kid' t
  assume ret: "computeInvoiceNumber (sl', nm') kid' = Inr t"
  then show lv: "level_ok sl'"
    by (simp add: computeInvoiceNumber_cases split: if_splits)
  from ret show "\<not> keyID_invalid kid'"
    by (simp add: computeInvoiceNumber_cases split: if_splits)
  from ret show "\<not> name_invalid (normalized_name nm')"
    by (simp add: computeInvoiceNumber_cases split: if_splits)
  from ret show "t = number_toString sl' @ ''-'' @ trim (toLowerCase nm') @ ''-'' @ kid'"
    by (simp add: computeInvoiceNumber_cases normalized_name_def split: if_splits)
  from lv show "number_toString sl' = ''0'' \<or> number_toString sl' = ''1'' \<or> number_toString sl' = ''2''"
    using level_toString_cases[of sl'] by auto
next
  show "computeInvoiceNumber (Integer 0, ''testprotocol'') ''k1'' = Inr ''0-testprotocol-k1''"
    by code_simp
qed

text \<open>
  C5 on an input: the level 1, the name "  My Protocol Name " and the key identifier "1"
  pass the validation, so they are given the token "1-my protocol name-1".
\<close>

theorem token_format_witness:
  "level_ok (Integer 1) \<and> \<not> keyID_invalid ''1''
   \<and> \<not> name_invalid (normalized_name ''  My Protocol Name '')
   \<and> computeInvoiceNumber (Integer 1, ''  My Protocol Name '') ''1'' = Inr ''1-my protocol name-1''"
proof -
  have lv: "level_ok (Integer 1)"
    by (simp add: level_ok_def)
  have kk: "\<not> keyID_invalid ''1''"
    by (simp add: keyID_invalid_def)
  have nn: "\<not> name_invalid (normalized_name ''  My Protocol Name '')"
    by code_simp
  have tx: "number_toString (Integer 1) @ ''-'' @ trim (toLowerCase ''  My Protocol Name '') @ ''-'' @ ''1''
      = ''1-my protocol name-1''"
    by code_simp
  from token_format [where sl = "Integer 1" and nm = "''  My Protocol Name ''" and kid = "''1''"]
    lv kk nn
  have "computeInvoiceNumber (Integer 1, ''  My Protocol Name '') ''1''
      = Inr (number_toString (Integer 1) @ ''-'' @ trim (toLowerCase ''  My Protocol Name '') @ ''-'' @ ''1'')"
    by blast
  with lv kk nn tx show ?thesis by simp
qed

text \<open>
  C9: when two triples of security level, protocol name and key identifier both pass the
  validation and their tokens are the same string, then the security levels are equal,
  the lower-cased trimmed protocol names are equal and the key identifiers are equal.
\<close>

theorem token_injective:
  assumes "computeInvoiceNumber (sl, nm) kid = Inr t"
    and "computeInvoiceNumber (sl', nm') kid' = Inr t'"
    and "t = t'"
  shows "sl = sl' \<and> trim (toLowerCase nm) = trim (toLowerCase nm') \<and> kid = kid'"
proof -
  from assms(1) have a: "level_ok sl" "\<not> name_invalid (normalized_name nm)"
    "t = number_toString sl @ ''-'' @ normalized_name nm @ ''-'' @ kid"
    by (auto simp: computeInvoiceNumber_cases split: if_splits)
  from assms(2) have b: "level_ok sl'" "\<not> name_invalid (normalized_name nm')"
    "t' = number_toString sl' @ ''-'' @ normalized_name nm' @ ''-'' @ kid'"
    by (auto simp: computeInvoiceNumber_cases split: if_splits)
  from a(3) b(3) assms(3)
  have eq: "number_toString sl @ (''-'' @ normalized_name nm @ ''-'' @ kid)
      = number_toString sl' @ (''-'' @ normalized_name nm' @ ''-'' @ kid')"
    by simp
  from level_toString_inj[OF a(1) b(1) eq] have sl: "sl = sl'"
    and rest: "normalized_name nm @ CHR ''-'' # kid = normalized_name nm' @ CHR ''-'' # kid'"
    by auto
  from split_at_dash[OF name_valid_no_dash[OF a(2)] name_valid_no_dash[OF b(2)] rest] sl
  show ?thesis by (simp add: normalized_name_def)
qed

text \<open>
  C9 on an input: the names "  My Protocol Name " and "my protocol name" give the same
  token with the level 1 and the key identifier "1", and their lower-cased trimmed forms
  are equal.
\<close>

theorem token_injective_witness:
  "computeInvoiceNumber (Integer 1, ''  My Protocol Name '') ''1'' = Inr ''1-my protocol name-1''
   \<and> computeInvoiceNumber (Integer 1, ''my protocol name'') ''1'' = Inr ''1-my protocol name-1''
   \<and> trim (toLowerCase ''  My Protocol Name '') = trim (toLowerCase ''my protocol name'')"
proof -
  have e1: "computeInvoiceNumber (Integer 1, ''  My Protocol Name '') ''1''
      = Inr ''1-my protocol name-1''"
    by code_simp
  have e2: "computeInvoiceNumber (Integer 1, ''my protocol name'') ''1''
      = Inr ''1-my protocol name-1''"
    by code_simp
  from token_injective[OF e1 e2 refl] e1 e2 show ?thesis by simp
qed

section \<open>The small instance satisfies what is asked of the primitives\<close>

lemma toy_cancel:
  assumes "P < 7" "Q < 7" "(P + R) mod 7 = (Q + R) mod (7::nat)"
  shows "P = Q"
proof (cases "P \<le> Q")
  case True
  then have le: "P + R \<le> Q + R" by simp
  from mod_eq_nat1E[OF assms(3)[symmetric] le]
  obtain q where "Q + R = P + R + 7 * q" .
  with assms(1,2) show ?thesis by arith
next
  case False
  then have le: "Q + R \<le> P + R" by simp
  from mod_eq_nat1E[OF assms(3) le]
  obtain q where "P + R = Q + R + 7 * q" .
  with assms(1,2) show ?thesis by arith
qed

lemma toy_curve_laws: "curve_laws toy"
  unfolding curve_laws_def toy_def
  by (simp add: mod_add_eq mod_mult_left_eq mod_mult_right_eq distrib_left mult.assoc)

lemma toy_curve_cancel: "curve_cancel toy"
  unfolding curve_cancel_def toy_def
  by (auto elim: toy_cancel)

lemma toy_readable_2: "identity_readable toy (KeyDeriver_constructor toy (FromPrivateKey 2))"
  by code_simp

lemma toy_readable_3: "identity_readable toy (KeyDeriver_constructor toy (FromPrivateKey 3))"
  by code_simp

lemma toy_toHex_inj: "inj (PrivateKey_toHex toy)"
proof (rule injI)
  fix j k :: nat
  assume "PrivateKey_toHex toy j = PrivateKey_toHex toy k"
  then have "length (replicate j (CHR ''1'')) = length (replicate k (CHR ''1''))"
    by (simp add: toy_def)
  then show "j = k" by simp
qed

lemma example_token:
  "computeInvoiceNumber (Integer 0, ''testprotocol'') ''k1'' = Inr ''0-testprotocol-k1''"
  by code_simp

section \<open>Public points of scalars\<close>

lemma toPublicKey_valid:
  "curve_laws L \<Longrightarrow> point_validate L (PrivateKey_toPublicKey L k)"
  by (simp add: curve_laws_def PrivateKey_toPublicKey_def)

lemma toPublicKey_mod:
  "curve_laws L \<Longrightarrow> PrivateKey_toPublicKey L (k mod curve_n L) = PrivateKey_toPublicKey L k"
  by (simp add: curve_laws_def PrivateKey_toPublicKey_def)

lemma toPublicKey_add:
  "curve_laws L \<Longrightarrow> PrivateKey_toPublicKey L (j + k)
     = point_add L (PrivateKey_toPublicKey L j) (point_mul L (curve_g L) k)"
  by (simp add: curve_laws_def PrivateKey_toPublicKey_def)

lemma mul_toPublicKey:
  "curve_laws L \<Longrightarrow> point_mul L (PrivateKey_toPublicKey L j) k = PrivateKey_toPublicKey L (j * k)"
  by (simp add: curve_laws_def PrivateKey_toPublicKey_def)

lemma toPublicKey_mult_mod:
  assumes laws: "curve_laws L"
  shows "PrivateKey_toPublicKey L (j * (k mod curve_n L)) = PrivateKey_toPublicKey L (j * k)"
proof -
  have "PrivateKey_toPublicKey L (j * (k mod curve_n L))
      = PrivateKey_toPublicKey L ((j * (k mod curve_n L)) mod curve_n L)"
    by (simp add: toPublicKey_mod[OF laws])
  also have "\<dots> = PrivateKey_toPublicKey L ((j * k) mod curve_n L)"
    by (simp add: mod_mult_right_eq)
  also have "\<dots> = PrivateKey_toPublicKey L (j * k)"
    by (simp add: toPublicKey_mod[OF laws])
  finally show ?thesis .
qed

lemma toPublicKey_add_cancel:
  assumes "curve_laws L" and cancel: "curve_cancel L"
  shows "(PrivateKey_toPublicKey L (j + h) = PrivateKey_toPublicKey L (k + h))
       = (PrivateKey_toPublicKey L j = PrivateKey_toPublicKey L k)"
proof
  assume eq: "PrivateKey_toPublicKey L (j + h) = PrivateKey_toPublicKey L (k + h)"
  have vh: "point_validate L (point_mul L (curve_g L) h)"
    using assms(1) by (simp add: curve_laws_def)
  from eq have "point_add L (PrivateKey_toPublicKey L j) (point_mul L (curve_g L) h)
      = point_add L (PrivateKey_toPublicKey L k) (point_mul L (curve_g L) h)"
    by (simp add: toPublicKey_add[OF assms(1)])
  with cancel toPublicKey_valid[OF assms(1), of j] toPublicKey_valid[OF assms(1), of k] vh
  show "PrivateKey_toPublicKey L j = PrivateKey_toPublicKey L k"
    unfolding curve_cancel_def by blast
next
  assume "PrivateKey_toPublicKey L j = PrivateKey_toPublicKey L k"
  then show "PrivateKey_toPublicKey L (j + h) = PrivateKey_toPublicKey L (k + h)"
    by (simp add: toPublicKey_add[OF assms(1)])
qed

section \<open>Shared secrets and child keys\<close>

text \<open>The two parties of a relationship compute the same shared point and the same offset.\<close>

lemma sharedSecret_commute:
  "curve_laws L \<Longrightarrow> deriveSharedSecret L a (PrivateKey_toPublicKey L b)
     = deriveSharedSecret L b (PrivateKey_toPublicKey L a)"
  by (simp add: deriveSharedSecret_def mul_toPublicKey mult.commute)

lemma child_offset_commute:
  "curve_laws L \<Longrightarrow> child_offset L a (PrivateKey_toPublicKey L b) t
     = child_offset L b (PrivateKey_toPublicKey L a) t"
  by (simp add: child_offset_def sharedSecret_commute)

lemma child_public:
  "curve_laws L \<Longrightarrow> PrivateKey_toPublicKey L (PrivateKey_deriveChild L a P t)
     = PrivateKey_toPublicKey L (a + child_offset L a P t)"
  by (simp add: PrivateKey_deriveChild_def toPublicKey_mod)

lemma PublicKey_deriveChild_public:
  "curve_laws L \<Longrightarrow> PublicKey_deriveChild L (PrivateKey_toPublicKey L a) b t
     = PrivateKey_toPublicKey L (a + child_offset L b (PrivateKey_toPublicKey L a) t)"
  by (simp add: PublicKey_deriveChild_def toPublicKey_add)

lemma child_agreement:
  "curve_laws L \<Longrightarrow>
     PrivateKey_toPublicKey L (PrivateKey_deriveChild L a (PrivateKey_toPublicKey L b) t)
       = PublicKey_deriveChild L (PrivateKey_toPublicKey L a) b t"
  by (simp add: child_public PublicKey_deriveChild_public child_offset_commute)

lemma child_sharedSecret:
  assumes "curve_laws L"
  shows "deriveSharedSecret L (PrivateKey_deriveChild L a (PrivateKey_toPublicKey L b) t)
           (PublicKey_deriveChild L (PrivateKey_toPublicKey L b) a t)
         = PrivateKey_toPublicKey L
             ((b + child_offset L a (PrivateKey_toPublicKey L b) t)
              * (a + child_offset L a (PrivateKey_toPublicKey L b) t))"
  by (simp add: deriveSharedSecret_def PublicKey_deriveChild_public[OF assms]
      mul_toPublicKey[OF assms] PrivateKey_deriveChild_def toPublicKey_mult_mod[OF assms])

lemma child_sharedSecret_sym:
  assumes "curve_laws L"
  shows "deriveSharedSecret L (PrivateKey_deriveChild L a (PrivateKey_toPublicKey L b) t)
           (PublicKey_deriveChild L (PrivateKey_toPublicKey L b) a t)
         = deriveSharedSecret L (PrivateKey_deriveChild L b (PrivateKey_toPublicKey L a) t)
           (PublicKey_deriveChild L (PrivateKey_toPublicKey L a) b t)"
  by (simp add: child_sharedSecret[OF assms] child_offset_commute[OF assms, of a b] mult.commute)

section \<open>The operations of the key deriver on accepted inputs\<close>

lemma rootKey_of_arg:
  "rootKey (KeyDeriver_constructor L arg) = (case arg of FromAnyone \<Rightarrow> 1 | FromPrivateKey k \<Rightarrow> k)"
  by (simp add: KeyDeriver_constructor_def Let_def)

lemma identityKey_of_arg:
  "identityKey (KeyDeriver_constructor L arg)
     = PublicKey_toString L (PrivateKey_toPublicKey L (rootKey (KeyDeriver_constructor L arg)))"
  by (simp add: KeyDeriver_constructor_def Let_def)

lemma normalize_key:
  "point_validate L P \<Longrightarrow> normalizeCounterparty L this (Key P) = Inr P"
  by (simp add: normalizeCounterparty_def)

lemma normalize_identityKey:
  assumes "curve_laws L" "identity_readable L D"
  shows "normalizeCounterparty L this (Text (identityKey D))
    = Inr (PrivateKey_toPublicKey L (rootKey D))"
  using assms(2) toPublicKey_valid[OF assms(1), of "rootKey D"]
  by (simp add: normalizeCounterparty_def identity_readable_def)

lemma derivePrivateKey_ok:
  assumes "normalizeCounterparty L this cp = Inr P" "computeInvoiceNumber pid kid = Inr t"
  shows "derivePrivateKey L this pid kid cp = Inr (PrivateKey_deriveChild L (rootKey this) P t)"
  using assms by (simp add: derivePrivateKey_def)

lemma derivePublicKey_forSelf_ok:
  assumes "curve_laws L" "normalizeCounterparty L this cp = Inr P"
    "computeInvoiceNumber pid kid = Inr t"
  shows "derivePublicKey L this pid kid cp True
    = Inr (PrivateKey_toPublicKey L (PrivateKey_deriveChild L (rootKey this) P t))"
  using assms by (simp add: derivePublicKey_def toPublicKey_valid)

lemma derivePublicKey_other_ok:
  assumes "curve_laws L" "normalizeCounterparty L this cp = Inr (PrivateKey_toPublicKey L a)"
    "computeInvoiceNumber pid kid = Inr t"
  shows "derivePublicKey L this pid kid cp False
    = Inr (PublicKey_deriveChild L (PrivateKey_toPublicKey L a) (rootKey this) t)"
  using assms by (simp add: derivePublicKey_def PublicKey_deriveChild_public toPublicKey_valid)

lemma deriveSymmetricKey_ok:
  assumes "curve_laws L" "identity_readable L D" "computeInvoiceNumber pid kid = Inr t"
  shows "deriveSymmetricKey L this pid kid (Text (identityKey D))
    = (case point_x L (deriveSharedSecret L
          (PrivateKey_deriveChild L (rootKey this) (PrivateKey_toPublicKey L (rootKey D)) t)
          (PublicKey_deriveChild L (PrivateKey_toPublicKey L (rootKey D)) (rootKey this) t)) of
         None \<Rightarrow> Inl DerivationError
       | Some x \<Rightarrow> Inr (BigNumber_toArray x))"
proof -
  let ?P = "PrivateKey_toPublicKey L (rootKey D)"
  have v: "point_validate L ?P" by (rule toPublicKey_valid[OF assms(1)])
  have n1: "normalizeCounterparty L this (Text (identityKey D)) = Inr ?P"
    by (rule normalize_identityKey[OF assms(1,2)])
  have n2: "normalizeCounterparty L this (Key ?P) = Inr ?P"
    by (rule normalize_key[OF v])
  have pub: "derivePublicKey L this pid kid (Key ?P) False
      = Inr (PublicKey_deriveChild L ?P (rootKey this) t)"
    by (rule derivePublicKey_other_ok[OF assms(1) n2 assms(3)])
  have priv: "derivePrivateKey L this pid kid (Key ?P)
      = Inr (PrivateKey_deriveChild L (rootKey this) ?P t)"
    by (rule derivePrivateKey_ok[OF n2 assms(3)])
  show ?thesis
    unfolding deriveSymmetricKey_def Let_def
    using assms(2) by (simp add: n1 pub priv identity_readable_def)
qed

section \<open>The laws of key derivation\<close>

text \<open>
  C1, the agreement law. Let the primitives satisfy the curve laws, let A and B be two
  derivers with any root keys whose identity keys are read back as their public points,
  and let the protocol identifier and the key identifier be accepted by the validation of
  the namespace token. Then derivePrivateKey computed by A with the counterparty B's
  identity key returns a private key, and derivePublicKey computed by B with the
  counterparty A's identity key and forSelf false returns the public point of that
  private key.
\<close>

theorem key_agreement:
  fixes L :: "'pt primitives" and ra rb :: rootKeyArg
  defines "A \<equiv> KeyDeriver_constructor L ra" and "B \<equiv> KeyDeriver_constructor L rb"
  assumes "curve_laws L"
    and "identity_readable L A" and "identity_readable L B"
    and "computeInvoiceNumber protocolID keyID = Inr t"
  shows "\<exists>d. derivePrivateKey L A protocolID keyID (Text (identityKey B)) = Inr d
           \<and> derivePublicKey L B protocolID keyID (Text (identityKey A)) False
               = Inr (PrivateKey_toPublicKey L d)"
proof -
  have nb: "normalizeCounterparty L A (Text (identityKey B))
      = Inr (PrivateKey_toPublicKey L (rootKey B))"
    by (rule normalize_identityKey[OF assms(3,5)])
  have na: "normalizeCounterparty L B (Text (identityKey A))
      = Inr (PrivateKey_toPublicKey L (rootKey A))"
    by (rule normalize_identityKey[OF assms(3,4)])
  have priv: "derivePrivateKey L A protocolID keyID (Text (identityKey B))
      = Inr (PrivateKey_deriveChild L (rootKey A) (PrivateKey_toPublicKey L (rootKey B)) t)"
    by (rule derivePrivateKey_ok[OF nb assms(6)])
  have pub: "derivePublicKey L B protocolID keyID (Text (identityKey A)) False
      = Inr (PublicKey_deriveChild L (PrivateKey_toPublicKey L (rootKey A)) (rootKey B) t)"
    by (rule derivePublicKey_other_ok[OF assms(3) na assms(6)])
  from priv pub show ?thesis
    by (simp add: child_agreement[OF assms(3)])
qed

text \<open>
  C1 on an input: in the small instance, with the root keys 2 and 3, the protocol
  (0, "testprotocol") and the key identifier "k1", the first deriver's private key is 4
  and the second deriver's public key is the point of 4.
\<close>

theorem key_agreement_witness:
  "derivePrivateKey toy (KeyDeriver_constructor toy (FromPrivateKey 2))
      (Integer 0, ''testprotocol'') ''k1''
      (Text (identityKey (KeyDeriver_constructor toy (FromPrivateKey 3)))) = Inr 4
   \<and> derivePublicKey toy (KeyDeriver_constructor toy (FromPrivateKey 3))
      (Integer 0, ''testprotocol'') ''k1''
      (Text (identityKey (KeyDeriver_constructor toy (FromPrivateKey 2)))) False
       = Inr (PrivateKey_toPublicKey toy 4)"
proof -
  have p: "derivePrivateKey toy (KeyDeriver_constructor toy (FromPrivateKey 2))
      (Integer 0, ''testprotocol'') ''k1''
      (Text (identityKey (KeyDeriver_constructor toy (FromPrivateKey 3)))) = Inr 4"
    by code_simp
  from key_agreement [OF toy_curve_laws toy_readable_2 toy_readable_3 example_token] p
  show ?thesis by auto
qed

text \<open>
  C2, the symmetry law. Under the curve laws, for two derivers with any root keys whose
  identity keys are read back as their public points and an accepted protocol identifier
  and key identifier, deriveSymmetricKey computed by the one with the counterparty the
  other's identity key has the same outcome on both sides: the same key material, or on
  both sides the failure of a shared point without x-coordinate, and no other failure.
\<close>

theorem symmetric_key_agreement:
  fixes L :: "'pt primitives" and ra rb :: rootKeyArg
  defines "A \<equiv> KeyDeriver_constructor L ra" and "B \<equiv> KeyDeriver_constructor L rb"
  assumes "curve_laws L"
    and "identity_readable L A" and "identity_readable L B"
    and "computeInvoiceNumber protocolID keyID = Inr t"
  shows "deriveSymmetricKey L A protocolID keyID (Text (identityKey B))
         = deriveSymmetricKey L B protocolID keyID (Text (identityKey A))
       \<and> (\<forall>e. deriveSymmetricKey L A protocolID keyID (Text (identityKey B)) = Inl e
              \<longrightarrow> e = DerivationError)"
proof
  show "deriveSymmetricKey L A protocolID keyID (Text (identityKey B))
         = deriveSymmetricKey L B protocolID keyID (Text (identityKey A))"
    unfolding deriveSymmetricKey_ok[OF assms(3,5,6)] deriveSymmetricKey_ok[OF assms(3,4,6)]
    by (simp only: child_sharedSecret_sym[OF assms(3), of "rootKey A"])
  show "\<forall>e. deriveSymmetricKey L A protocolID keyID (Text (identityKey B)) = Inl e
              \<longrightarrow> e = DerivationError"
    unfolding deriveSymmetricKey_ok[OF assms(3,5,6)]
    by (auto split: option.splits)
qed

text \<open>
  C2 on an input: in the small instance, with the root keys 2 and 3, both derivers obtain
  the key material [6].
\<close>

theorem symmetric_key_agreement_witness:
  "deriveSymmetricKey toy (KeyDeriver_constructor toy (FromPrivateKey 2))
      (Integer 0, ''testprotocol'') ''k1''
      (Text (identityKey (KeyDeriver_constructor toy (FromPrivateKey 3)))) = Inr [6]
   \<and> deriveSymmetricKey toy (KeyDeriver_constructor toy (FromPrivateKey 3))
      (Integer 0, ''testprotocol'') ''k1''
      (Text (identityKey (KeyDeriver_constructor toy (FromPrivateKey 2)))) = Inr [6]"
proof -
  have s: "deriveSymmetricKey toy (KeyDeriver_constructor toy (FromPrivateKey 2))
      (Integer 0, ''testprotocol'') ''k1''
      (Text (identityKey (KeyDeriver_constructor toy (FromPrivateKey 3)))) = Inr [6]"
    by code_simp
  from symmetric_key_agreement [OF toy_curve_laws toy_readable_2 toy_readable_3 example_token] s
  show ?thesis by simp
qed

text \<open>
  C3, as the code has it. Under the curve laws and cancellation, for two derivers A and B
  with any root keys whose identity keys are read back as their public points and an
  accepted protocol identifier and key identifier:
  derivePublicKey computed by A with the counterparty B's identity key and forSelf true is
  the public point of derivePrivateKey computed by the same deriver A with the
  counterparty B's identity key, which is also what B obtains from derivePublicKey with
  the counterparty A's identity key and forSelf false. The public point of
  derivePrivateKey computed by B with the counterparty A's identity key is that point
  exactly when A and B have the same identity point.
\<close>

theorem forSelf_round_trip:
  fixes L :: "'pt primitives" and ra rb :: rootKeyArg
  defines "A \<equiv> KeyDeriver_constructor L ra" and "B \<equiv> KeyDeriver_constructor L rb"
  assumes "curve_laws L" and "curve_cancel L"
    and "identity_readable L A" and "identity_readable L B"
    and "computeInvoiceNumber protocolID keyID = Inr t"
  shows "\<exists>d d'. derivePublicKey L A protocolID keyID (Text (identityKey B)) True
                   = Inr (PrivateKey_toPublicKey L d)
           \<and> derivePrivateKey L A protocolID keyID (Text (identityKey B)) = Inr d
           \<and> derivePublicKey L B protocolID keyID (Text (identityKey A)) False
                   = Inr (PrivateKey_toPublicKey L d)
           \<and> derivePrivateKey L B protocolID keyID (Text (identityKey A)) = Inr d'
           \<and> ((PrivateKey_toPublicKey L d' = PrivateKey_toPublicKey L d)
                = (PrivateKey_toPublicKey L (rootKey A) = PrivateKey_toPublicKey L (rootKey B)))"
proof -
  let ?a = "rootKey A" and ?b = "rootKey B"
  let ?d = "PrivateKey_deriveChild L ?a (PrivateKey_toPublicKey L ?b) t"
  let ?d' = "PrivateKey_deriveChild L ?b (PrivateKey_toPublicKey L ?a) t"
  have nb: "normalizeCounterparty L A (Text (identityKey B)) = Inr (PrivateKey_toPublicKey L ?b)"
    by (rule normalize_identityKey[OF assms(3,6)])
  have na: "normalizeCounterparty L B (Text (identityKey A)) = Inr (PrivateKey_toPublicKey L ?a)"
    by (rule normalize_identityKey[OF assms(3,5)])
  have 1: "derivePublicKey L A protocolID keyID (Text (identityKey B)) True
      = Inr (PrivateKey_toPublicKey L ?d)"
    by (rule derivePublicKey_forSelf_ok[OF assms(3) nb assms(7)])
  have 2: "derivePrivateKey L A protocolID keyID (Text (identityKey B)) = Inr ?d"
    by (rule derivePrivateKey_ok[OF nb assms(7)])
  have 3: "derivePublicKey L B protocolID keyID (Text (identityKey A)) False
      = Inr (PrivateKey_toPublicKey L ?d)"
    using derivePublicKey_other_ok[OF assms(3) na assms(7)]
    by (simp add: child_agreement[OF assms(3)])
  have 4: "derivePrivateKey L B protocolID keyID (Text (identityKey A)) = Inr ?d'"
    by (rule derivePrivateKey_ok[OF na assms(7)])
  have 5: "(PrivateKey_toPublicKey L ?d' = PrivateKey_toPublicKey L ?d)
      = (PrivateKey_toPublicKey L ?a = PrivateKey_toPublicKey L ?b)"
    using toPublicKey_add_cancel[OF assms(3,4),
        of ?b "child_offset L ?a (PrivateKey_toPublicKey L ?b) t" ?a]
    by (auto simp add: child_public[OF assms(3)] child_offset_commute[OF assms(3), of ?b ?a])
  from 1 2 3 4 5 show ?thesis by blast
qed

text \<open>
  C3 on an input: in the small instance, with the root keys 2 and 3, derivePublicKey with
  forSelf true computed by the first deriver is the point of 4, the private key the first
  deriver derives is 4, and derivePublicKey with forSelf false computed by the second
  deriver is the point of 4.
\<close>

theorem forSelf_round_trip_witness:
  "derivePublicKey toy (KeyDeriver_constructor toy (FromPrivateKey 2))
      (Integer 0, ''testprotocol'') ''k1''
      (Text (identityKey (KeyDeriver_constructor toy (FromPrivateKey 3)))) True
       = Inr (PrivateKey_toPublicKey toy 4)
   \<and> derivePrivateKey toy (KeyDeriver_constructor toy (FromPrivateKey 2))
      (Integer 0, ''testprotocol'') ''k1''
      (Text (identityKey (KeyDeriver_constructor toy (FromPrivateKey 3)))) = Inr 4
   \<and> derivePublicKey toy (KeyDeriver_constructor toy (FromPrivateKey 3))
      (Integer 0, ''testprotocol'') ''k1''
      (Text (identityKey (KeyDeriver_constructor toy (FromPrivateKey 2)))) False
       = Inr (PrivateKey_toPublicKey toy 4)"
proof -
  have p: "derivePrivateKey toy (KeyDeriver_constructor toy (FromPrivateKey 2))
      (Integer 0, ''testprotocol'') ''k1''
      (Text (identityKey (KeyDeriver_constructor toy (FromPrivateKey 3)))) = Inr 4"
    by code_simp
  from forSelf_round_trip
      [OF toy_curve_laws toy_curve_cancel toy_readable_2 toy_readable_3 example_token] p
  show ?thesis by auto
qed

text \<open>
  C3 as it is worded fails. In the small instance, with the root keys 2 and 3, the
  protocol (0, "testprotocol") and the key identifier "k1", derivePublicKey with forSelf
  true computed by the deriver of root key 2 for the counterparty of root key 3 is the
  point 4, and the public point of derivePrivateKey computed by the deriver of root key 3
  for the counterparty of root key 2 is the point 5.
\<close>

theorem round_trip_counterexample:
  "derivePublicKey toy (KeyDeriver_constructor toy (FromPrivateKey 2))
      (Integer 0, ''testprotocol'') ''k1''
      (Text (identityKey (KeyDeriver_constructor toy (FromPrivateKey 3)))) True = Inr 4
   \<and> map_sum id (PrivateKey_toPublicKey toy)
       (derivePrivateKey toy (KeyDeriver_constructor toy (FromPrivateKey 3))
          (Integer 0, ''testprotocol'') ''k1''
          (Text (identityKey (KeyDeriver_constructor toy (FromPrivateKey 2))))) = Inr 5"
  by code_simp

text \<open>
  C10: under the curve laws, for one deriver, a counterparty that normalizes to a point
  and an accepted protocol identifier and key identifier, derivePrivateKey returns the
  child scalar of the root key tweaked by that point and the namespace token, and
  derivePublicKey with forSelf true returns the public point of that scalar.
\<close>

theorem forSelf_matches_private:
  assumes "curve_laws L"
    and "normalizeCounterparty L this counterparty = Inr P"
    and "computeInvoiceNumber protocolID keyID = Inr t"
  shows "\<exists>d. derivePrivateKey L this protocolID keyID counterparty = Inr d
           \<and> derivePublicKey L this protocolID keyID counterparty True
               = Inr (PrivateKey_toPublicKey L d)
           \<and> d = PrivateKey_deriveChild L (rootKey this) P t"
  using derivePrivateKey_ok[OF assms(2,3)] derivePublicKey_forSelf_ok[OF assms]
  by simp

text \<open>
  C10 on an input: in the small instance, the deriver of root key 2 and the counterparty
  point 5 give the private key 1 and, with forSelf true, the point of 1.
\<close>

theorem forSelf_matches_private_witness:
  "derivePrivateKey toy (KeyDeriver_constructor toy (FromPrivateKey 2))
      (Integer 0, ''testprotocol'') ''k1'' (Key 5) = Inr 1
   \<and> derivePublicKey toy (KeyDeriver_constructor toy (FromPrivateKey 2))
      (Integer 0, ''testprotocol'') ''k1'' (Key 5) True = Inr (PrivateKey_toPublicKey toy 1)"
proof -
  have n: "normalizeCounterparty toy (KeyDeriver_constructor toy (FromPrivateKey 2)) (Key 5) = Inr 5"
    by code_simp
  have p: "derivePrivateKey toy (KeyDeriver_constructor toy (FromPrivateKey 2))
      (Integer 0, ''testprotocol'') ''k1'' (Key 5) = Inr 1"
    by code_simp
  from forSelf_matches_private [OF toy_curve_laws n example_token] p
  show ?thesis by auto
qed

section \<open>Normalization and the revealed secrets\<close>

text \<open>
  C6: normalizeCounterparty fails with InvalidCounterparty on an absent counterparty;
  it maps 'self' to the public point of the root key, whose text is the identity key of
  the deriver, when that point validates; it maps 'anyone' to the point of the scalar 1,
  the base point times 1, when that point validates, with the same outcome on every
  deriver; it parses any other text and returns the parsed point when the text parses and
  the point validates, and fails with InvalidCounterparty otherwise; it returns a public
  key object when it validates and fails with InvalidCounterparty otherwise. Every point
  it returns validates, and every failure is InvalidCounterparty.
\<close>

theorem normalizeCounterparty_outcome:
  "normalizeCounterparty L this Absent = Inl InvalidCounterparty
   \<and> (point_validate L (PrivateKey_toPublicKey L (rootKey this)) \<longrightarrow>
        normalizeCounterparty L this (Text ''self'') = Inr (PrivateKey_toPublicKey L (rootKey this)))
   \<and> identityKey (KeyDeriver_constructor L arg)
        = PublicKey_toString L (PrivateKey_toPublicKey L (rootKey (KeyDeriver_constructor L arg)))
   \<and> (point_validate L (point_mul L (curve_g L) 1) \<longrightarrow>
        normalizeCounterparty L this (Text ''anyone'') = Inr (point_mul L (curve_g L) 1))
   \<and> normalizeCounterparty L this (Text ''anyone'') = normalizeCounterparty L other (Text ''anyone'')
   \<and> (s \<noteq> ''self'' \<and> s \<noteq> ''anyone'' \<longrightarrow>
        normalizeCounterparty L this (Text s)
          = (case PublicKey_fromString L s of
               None \<Rightarrow> Inl InvalidCounterparty
             | Some k \<Rightarrow> if point_validate L k then Inr k else Inl InvalidCounterparty))
   \<and> normalizeCounterparty L this (Key k)
        = (if point_validate L k then Inr k else Inl InvalidCounterparty)
   \<and> (normalizeCounterparty L this counterparty = Inr P \<longrightarrow> point_validate L P)
   \<and> (normalizeCounterparty L this counterparty = Inl e \<longrightarrow> e = InvalidCounterparty)"
proof (intro conjI impI)
  show "normalizeCounterparty L this Absent = Inl InvalidCounterparty"
    by (simp add: normalizeCounterparty_def)
  show "normalizeCounterparty L this (Text ''self'') = Inr (PrivateKey_toPublicKey L (rootKey this))"
    if "point_validate L (PrivateKey_toPublicKey L (rootKey this))"
    using that by (simp add: normalizeCounterparty_def)
  show "identityKey (KeyDeriver_constructor L arg)
        = PublicKey_toString L (PrivateKey_toPublicKey L (rootKey (KeyDeriver_constructor L arg)))"
    by (rule identityKey_of_arg)
  show "normalizeCounterparty L this (Text ''anyone'') = Inr (point_mul L (curve_g L) 1)"
    if "point_validate L (point_mul L (curve_g L) 1)"
    using that by (simp add: normalizeCounterparty_def PrivateKey_toPublicKey_def)
  show "normalizeCounterparty L this (Text ''anyone'') = normalizeCounterparty L other (Text ''anyone'')"
    by (simp add: normalizeCounterparty_def)
  show "normalizeCounterparty L this (Text s)
          = (case PublicKey_fromString L s of
               None \<Rightarrow> Inl InvalidCounterparty
             | Some k \<Rightarrow> if point_validate L k then Inr k else Inl InvalidCounterparty)"
    if "s \<noteq> ''self'' \<and> s \<noteq> ''anyone''"
    using that by (simp add: normalizeCounterparty_def split: option.splits)
  show "normalizeCounterparty L this (Key k)
        = (if point_validate L k then Inr k else Inl InvalidCounterparty)"
    by (simp add: normalizeCounterparty_def)
  show "point_validate L P" if "normalizeCounterparty L this counterparty = Inr P"
    using that
    by (auto simp: normalizeCounterparty_def Let_def
        split: Counterparty.splits if_splits option.splits sum.splits)
  show "e = InvalidCounterparty" if "normalizeCounterparty L this counterparty = Inl e"
    using that
    by (auto simp: normalizeCounterparty_def Let_def
        split: Counterparty.splits if_splits option.splits sum.splits)
qed

text \<open>
  C6 on inputs: in the small instance the deriver of root key 2 maps 'self' to the point
  2, 'anyone' to the point 1, the text of the point 3 to the point 3, and refuses a text
  that does not parse, the text of a point that does not validate, and an absent
  counterparty.
\<close>

theorem normalizeCounterparty_outcome_witness:
  "normalizeCounterparty toy (KeyDeriver_constructor toy (FromPrivateKey 2)) (Text ''self'') = Inr 2
   \<and> normalizeCounterparty toy (KeyDeriver_constructor toy (FromPrivateKey 2)) (Text ''anyone'') = Inr 1
   \<and> normalizeCounterparty toy (KeyDeriver_constructor toy (FromPrivateKey 2)) (Text ''PPPP'') = Inr 3
   \<and> normalizeCounterparty toy (KeyDeriver_constructor toy (FromPrivateKey 2)) (Text ''xyz'')
       = Inl InvalidCounterparty
   \<and> normalizeCounterparty toy (KeyDeriver_constructor toy (FromPrivateKey 2)) (Text ''PPPPPPPPPP'')
       = Inl InvalidCounterparty
   \<and> normalizeCounterparty toy (KeyDeriver_constructor toy (FromPrivateKey 2)) Absent
       = Inl InvalidCounterparty"
proof -
  let ?D = "KeyDeriver_constructor toy (FromPrivateKey 2)"
  have v: "point_validate toy (PrivateKey_toPublicKey toy (rootKey ?D))"
    "PrivateKey_toPublicKey toy (rootKey ?D) = 2"
    "point_validate toy (point_mul toy (curve_g toy) 1)"
    "point_mul toy (curve_g toy) 1 = 1"
    by code_simp+
  have f: "PublicKey_fromString toy ''PPPP'' = Some 3" "point_validate toy 3"
    "PublicKey_fromString toy ''xyz'' = None"
    "PublicKey_fromString toy ''PPPPPPPPPP'' = Some 9" "\<not> point_validate toy 9"
    by code_simp+
  show ?thesis
    using normalizeCounterparty_outcome [where L = toy and this = ?D and s = "''PPPP''"]
      normalizeCounterparty_outcome [where L = toy and this = ?D and s = "''xyz''"]
      normalizeCounterparty_outcome [where L = toy and this = ?D and s = "''PPPPPPPPPP''"]
      v f
    by simp
qed

text \<open>
  C7: revealCounterpartySecret fails with PolicyViolation for the counterparty 'self'.
  For any other counterparty that normalizes to a point, it fails with PolicyViolation
  when the child key of the root key tweaked by the deriver's own public point and the
  token "test" equals the child key tweaked by the normalized point and "test"; when the
  two child keys differ, and the hexadecimal text of a private key determines the key, it
  returns the compressed encoding of the shared point of the root key and the normalized
  point.
\<close>

theorem revealCounterpartySecret_outcome:
  "revealCounterpartySecret L this (Text ''self'') = Inl PolicyViolation
   \<and> (counterparty \<noteq> Text ''self'' \<and> normalizeCounterparty L this counterparty = Inr P
        \<and> PrivateKey_deriveChild L (rootKey this) (PrivateKey_toPublicKey L (rootKey this)) ''test''
            = PrivateKey_deriveChild L (rootKey this) P ''test''
      \<longrightarrow> revealCounterpartySecret L this counterparty = Inl PolicyViolation)
   \<and> (counterparty \<noteq> Text ''self'' \<and> normalizeCounterparty L this counterparty = Inr P
        \<and> inj (PrivateKey_toHex L)
        \<and> PrivateKey_deriveChild L (rootKey this) (PrivateKey_toPublicKey L (rootKey this)) ''test''
            \<noteq> PrivateKey_deriveChild L (rootKey this) P ''test''
      \<longrightarrow> revealCounterpartySecret L this counterparty
            = Inr (point_encode L (deriveSharedSecret L (rootKey this) P)))"
proof (intro conjI impI)
  show "revealCounterpartySecret L this (Text ''self'') = Inl PolicyViolation"
    by (simp add: revealCounterpartySecret_def)
  show "revealCounterpartySecret L this counterparty = Inl PolicyViolation"
    if "counterparty \<noteq> Text ''self'' \<and> normalizeCounterparty L this counterparty = Inr P
        \<and> PrivateKey_deriveChild L (rootKey this) (PrivateKey_toPublicKey L (rootKey this)) ''test''
            = PrivateKey_deriveChild L (rootKey this) P ''test''"
    using that by (simp add: revealCounterpartySecret_def)
  show "revealCounterpartySecret L this counterparty
            = Inr (point_encode L (deriveSharedSecret L (rootKey this) P))"
    if "counterparty \<noteq> Text ''self'' \<and> normalizeCounterparty L this counterparty = Inr P
        \<and> inj (PrivateKey_toHex L)
        \<and> PrivateKey_deriveChild L (rootKey this) (PrivateKey_toPublicKey L (rootKey this)) ''test''
            \<noteq> PrivateKey_deriveChild L (rootKey this) P ''test''"
    using that by (simp add: revealCounterpartySecret_def inj_eq)
qed

text \<open>
  C7 on inputs: in the small instance the deriver of root key 2 refuses 'self', refuses
  the text of its own public point 2, and for the text of the point 3 returns [6], the
  encoding of the shared point.
\<close>

theorem revealCounterpartySecret_outcome_witness:
  "revealCounterpartySecret toy (KeyDeriver_constructor toy (FromPrivateKey 2)) (Text ''self'')
     = Inl PolicyViolation
   \<and> revealCounterpartySecret toy (KeyDeriver_constructor toy (FromPrivateKey 2)) (Text ''PPP'')
     = Inl PolicyViolation
   \<and> revealCounterpartySecret toy (KeyDeriver_constructor toy (FromPrivateKey 2)) (Text ''PPPP'')
     = Inr [6]"
proof -
  let ?D = "KeyDeriver_constructor toy (FromPrivateKey 2)"
  have n: "normalizeCounterparty toy ?D (Text ''PPP'') = Inr 2"
    "normalizeCounterparty toy ?D (Text ''PPPP'') = Inr 3"
    by code_simp+
  have k: "PrivateKey_deriveChild toy (rootKey ?D) (PrivateKey_toPublicKey toy (rootKey ?D)) ''test''
      = PrivateKey_deriveChild toy (rootKey ?D) 2 ''test''"
    "PrivateKey_deriveChild toy (rootKey ?D) (PrivateKey_toPublicKey toy (rootKey ?D)) ''test''
      \<noteq> PrivateKey_deriveChild toy (rootKey ?D) 3 ''test''"
    "point_encode toy (deriveSharedSecret toy (rootKey ?D) 3) = [6]"
    by code_simp+
  have t: "(Text ''PPP'' :: nat Counterparty) \<noteq> Text ''self''"
    "(Text ''PPPP'' :: nat Counterparty) \<noteq> Text ''self''"
    by simp_all
  show ?thesis
    using revealCounterpartySecret_outcome
        [where L = toy and this = ?D and counterparty = "Text ''PPP''" and P = 2]
      revealCounterpartySecret_outcome
        [where L = toy and this = ?D and counterparty = "Text ''PPPP''" and P = 3]
      n k t toy_toHex_inj
    by simp
qed

text \<open>
  C8: for a counterparty that normalizes to a point and an accepted protocol identifier
  and key identifier, revealSpecificSecret returns the HMAC-SHA256 whose key is the
  compressed encoding of the shared point of the root key and the normalized point and
  whose message is the UTF-8 bytes of the namespace token. No comparison with the
  deriver's own key is made: the counterparty 'self' is served like any other.
\<close>

theorem revealSpecificSecret_outcome:
  assumes "normalizeCounterparty L this counterparty = Inr P"
    and "computeInvoiceNumber protocolID keyID = Inr t"
  shows "revealSpecificSecret L this counterparty protocolID keyID
    = Inr (sha256hmac L (point_encode L (deriveSharedSecret L (rootKey this) P)) (toArray_utf8 t))"
  using assms by (simp add: revealSpecificSecret_def)

text \<open>
  C8 on an input: in the small instance the deriver of root key 2 answers the
  counterparty 'self' with [21], the hash of the encoding [4] of the shared point and the
  17 bytes of the token "0-testprotocol-k1".
\<close>

theorem revealSpecificSecret_outcome_witness:
  "revealSpecificSecret toy (KeyDeriver_constructor toy (FromPrivateKey 2)) (Text ''self'')
     (Integer 0, ''testprotocol'') ''k1'' = Inr [21]
   \<and> point_encode toy (deriveSharedSecret toy 2 2) = [4]
   \<and> length (toArray_utf8 ''0-testprotocol-k1'') = 17"
proof -
  let ?D = "KeyDeriver_constructor toy (FromPrivateKey 2)"
  have n: "normalizeCounterparty toy ?D (Text ''self'') = Inr 2"
    by code_simp
  have h: "sha256hmac toy (point_encode toy (deriveSharedSecret toy (rootKey ?D) 2))
      (toArray_utf8 ''0-testprotocol-k1'') = [21]"
    "point_encode toy (deriveSharedSecret toy 2 2) = [4]"
    "length (toArray_utf8 ''0-testprotocol-k1'') = 17"
    by code_simp+
  from revealSpecificSecret_outcome [OF n example_token] h
  show ?thesis by simp
qed

end
